theory Spec2Isabelle
  imports Main "HOL-Library.Word"
begin

section \<open>JavaScript values used by app/script.js\<close>

text \<open>
  A JavaScript string is a sequence of UTF-16 code units, and the regular expressions of
  \<^verbatim>\<open>markdownToHtml\<close> (none of them has the \<^verbatim>\<open>u\<close> flag) and
  \<^verbatim>\<open>String.prototype.trim\<close> work on code units. ASCII literals of the source are
  written through \<open>js_of\<close>; the Chinese literals are given by their code units.
\<close>

type_synonym jschar = "16 word"
type_synonym jsstr = "jschar list"

definition js_of :: "string \<Rightarrow> jsstr" where
  "js_of cs = map of_char cs"

text \<open>
  A property that may be missing from a JSON object (\<^verbatim>\<open>undefined\<close>), be
  \<^verbatim>\<open>null\<close>, or hold a value.
\<close>

datatype 'a js_optional = Undefined | Null | Present 'a

text \<open>Truthiness of an optional string: \<^verbatim>\<open>undefined\<close>, \<^verbatim>\<open>null\<close> and \<^verbatim>\<open>''\<close> are falsy.\<close>

fun truthy_str :: "jsstr js_optional \<Rightarrow> bool" where
  "truthy_str (Present s) = (s \<noteq> [])"
| "truthy_str _ = False"

text \<open>Truthiness of an optional object: every object is truthy.\<close>

fun truthy_obj :: "'a js_optional \<Rightarrow> bool" where
  "truthy_obj (Present x) = True"
| "truthy_obj _ = False"

text \<open>
  ECMAScript LineTerminator code points: LF, CR, LS, PS. The dot of a regular expression
  matches every code unit but these, and with the \<^verbatim>\<open>m\<close> flag \<^verbatim>\<open>^\<close> holds
  after one of them and \<^verbatim>\<open>$\<close> before one of them.
\<close>

definition is_line_terminator :: "jschar \<Rightarrow> bool" where
  "is_line_terminator c \<longleftrightarrow> c = 0x000A \<or> c = 0x000D \<or> c = 0x2028 \<or> c = 0x2029"

text \<open>
  ECMAScript WhiteSpace and LineTerminator: what \<^verbatim>\<open>\s\<close> matches and what
  \<^verbatim>\<open>trim\<close> strips (TAB, LF, VT, FF, CR, SP, NBSP, the Unicode space separators, LS,
  PS and the byte order mark).
\<close>

definition is_js_whitespace :: "jschar \<Rightarrow> bool" where
  "is_js_whitespace c \<longleftrightarrow>
     c = 0x0009 \<or> c = 0x000A \<or> c = 0x000B \<or> c = 0x000C \<or> c = 0x000D \<or> c = 0x0020 \<or>
     c = 0x00A0 \<or> c = 0x1680 \<or> (0x2000 \<le> c \<and> c \<le> 0x200A) \<or> c = 0x2028 \<or> c = 0x2029 \<or>
     c = 0x202F \<or> c = 0x205F \<or> c = 0x3000 \<or> c = 0xFEFF"

text \<open>\<^verbatim>\<open>\d\<close>: the ASCII digits.\<close>

definition is_digit :: "jschar \<Rightarrow> bool" where
  "is_digit c \<longleftrightarrow> 0x0030 \<le> c \<and> c \<le> 0x0039"

text \<open>\<^verbatim>\<open>String.prototype.trim\<close>.\<close>

definition trim :: "jsstr \<Rightarrow> jsstr" where
  "trim s = rev (dropWhile is_js_whitespace (rev (dropWhile is_js_whitespace s)))"

text \<open>
  Decimal rendering of a natural number inside a template literal: the index of an analysis
  step and the status code of a response.
\<close>

definition digit_char :: "nat \<Rightarrow> jschar" where
  "digit_char d = of_nat (48 + d)"

fun decimal :: "nat \<Rightarrow> jsstr" where
  "decimal n = (if n < 10 then [digit_char n] else decimal (n div 10) @ [digit_char (n mod 10)])"

declare decimal.simps [simp del]

text \<open>
  The Number values that the script writes as a percentage: an integer, which is what
  \<^verbatim>\<open>Math.round\<close> yields for a finite argument, \<^verbatim>\<open>NaN\<close> or an infinity.
\<close>

datatype js_number = Integer int | NaN | PosInfinity | NegInfinity

text \<open>
  The progress of a status is an IEEE double, or is missing. The script uses it in one
  expression only, \<^verbatim>\<open>Math.round(status.progress * 100)\<close>. Doubles and their arithmetic
  are not modelled: a progress is given by the value that this expression has for it. So
  the progress 0.285, whose double product with 100 lies below 28.5, is \<open>Percentage (Integer 28)\<close>,
  and a missing progress is \<open>Percentage NaN\<close>.
\<close>

datatype progress_value = Percentage js_number

fun Math_round_100 :: "progress_value \<Rightarrow> js_number" where
  "Math_round_100 (Percentage n) = n"

text \<open>
  A declaration \<^verbatim>\<open>width: p%\<close> is valid for a number \<open>p\<close> that is not negative;
  assigning an invalid value to \<^verbatim>\<open>style.width\<close> leaves the style as it is.
\<close>

fun valid_width :: "js_number \<Rightarrow> bool" where
  "valid_width (Integer i) = (0 \<le> i)"
| "valid_width _ = False"

section \<open>markdownToHtml\<close>

text \<open>
  \<^verbatim>\<open>s.replace(re, template)\<close> with a global regular expression: the string is scanned from
  left to right; at each position the expression is tried; where it matches, the match is
  replaced and the scan goes on behind the match, otherwise the code unit is kept and the
  scan moves on by one. A matcher is given the code unit before the position (for
  \<^verbatim>\<open>^\<close>) and the rest of the string, and returns the text of capture group 1 with the
  length of the whole match. None of the expressions of \<^verbatim>\<open>markdownToHtml\<close> matches the
  empty string, so a match spans at least one code unit: the first argument counts the code
  units of the current match that are still to be skipped.
\<close>

type_synonym matcher = "jschar option \<Rightarrow> jsstr \<Rightarrow> (jsstr \<times> nat) option"

fun replace_all :: "matcher \<Rightarrow> (jsstr \<Rightarrow> jsstr) \<Rightarrow> nat \<Rightarrow> jschar option \<Rightarrow> jsstr \<Rightarrow> jsstr" where
  "replace_all m template skip prev [] = []"
| "replace_all m template (Suc k) prev (c # cs) = replace_all m template k (Some c) cs"
| "replace_all m template 0 prev (c # cs) =
     (case m prev (c # cs) of
        Some (group1, n) \<Rightarrow> template group1 @ replace_all m template (n - 1) (Some c) cs
      | None \<Rightarrow> c # replace_all m template 0 (Some c) cs)"

definition replace :: "matcher \<Rightarrow> (jsstr \<Rightarrow> jsstr) \<Rightarrow> jsstr \<Rightarrow> jsstr" where
  "replace m template s = replace_all m template 0 None s"

fun starts_with :: "jsstr \<Rightarrow> jsstr \<Rightarrow> bool" where
  "starts_with [] s = True"
| "starts_with (p # ps) [] = False"
| "starts_with (p # ps) (c # cs) = (p = c \<and> starts_with ps cs)"

text \<open>\<^verbatim>\<open>^\<close> with the \<^verbatim>\<open>m\<close> flag: at the start of the input or behind a line terminator.\<close>

fun line_start :: "jschar option \<Rightarrow> bool" where
  "line_start None = True"
| "line_start (Some c) = is_line_terminator c"

text \<open>
  \<^verbatim>\<open>(.*$)\<close> with the \<^verbatim>\<open>m\<close> flag: the greedy \<^verbatim>\<open>.*\<close> takes every code unit up to
  the next line terminator or the end of the input, where \<^verbatim>\<open>$\<close> holds, so the first
  attempt succeeds and nothing is given back.
\<close>

definition rest_of_line :: "jsstr \<Rightarrow> jsstr" where
  "rest_of_line s = takeWhile (\<lambda>c. \<not> is_line_terminator c) s"

text \<open>\<^verbatim>\<open>/^### (.*$)/gm\<close>, \<^verbatim>\<open>/^## (.*$)/gm\<close>, \<^verbatim>\<open>/^# (.*$)/gm\<close>: a literal prefix at a line start.\<close>

definition match_heading :: "jsstr \<Rightarrow> matcher" where
  "match_heading marker prev s =
     (if line_start prev \<and> starts_with marker s
      then let group1 = rest_of_line (drop (length marker) s)
           in Some (group1, length marker + length group1)
      else None)"

text \<open>
  \<^verbatim>\<open>(.*?)\<close> followed by a literal: the lazy quantifier first tries to match nothing and
  then takes one more code unit at a time, never a line terminator, until the literal
  follows. The result is the length of the group.
\<close>

fun lazy_until :: "jsstr \<Rightarrow> jsstr \<Rightarrow> nat option" where
  "lazy_until d [] = (if starts_with d [] then Some 0 else None)"
| "lazy_until d (c # cs) =
     (if starts_with d (c # cs) then Some 0
      else if is_line_terminator c then None
      else map_option Suc (lazy_until d cs))"

text \<open>\<^verbatim>\<open>/\*\*(.*?)\*\*/g\<close> and \<^verbatim>\<open>/\*(.*?)\*/g\<close>: the same literal on both sides of the group.\<close>

definition match_delimited :: "jsstr \<Rightarrow> matcher" where
  "match_delimited d prev s =
     (if starts_with d s
      then (case lazy_until d (drop (length d) s) of
              Some k \<Rightarrow> Some (take k (drop (length d) s), length d + k + length d)
            | None \<Rightarrow> None)
      else None)"

text \<open>
  \<^verbatim>\<open>\s+(.*$)\<close>: the greedy \<^verbatim>\<open>\s+\<close> takes every white space code unit, line terminators
  among them, and needs one at least; the group is the rest of the line behind them.
\<close>

definition match_item_text :: "nat \<Rightarrow> jsstr \<Rightarrow> (jsstr \<times> nat) option" where
  "match_item_text consumed s =
     (let spaces = takeWhile is_js_whitespace s
      in if spaces = [] then None
         else let group1 = rest_of_line (drop (length spaces) s)
              in Some (group1, consumed + length spaces + length group1))"

text \<open>
  \<^verbatim>\<open>/^\d+\.\s+(.*$)/gm\<close>: the greedy \<^verbatim>\<open>\d+\<close> takes every digit; giving one back
  would leave a digit where the dot has to be.
\<close>

definition match_ordered_item :: matcher where
  "match_ordered_item prev s =
     (if line_start prev
      then let digits = takeWhile is_digit s
           in if digits = [] then None
              else (case drop (length digits) s of
                      [] \<Rightarrow> None
                    | c # cs \<Rightarrow> if c = 0x002E then match_item_text (length digits + 1) cs else None)
      else None)"

text \<open>\<^verbatim>\<open>/^-\s+(.*$)/gm\<close>.\<close>

definition match_unordered_item :: matcher where
  "match_unordered_item prev s =
     (if line_start prev
      then (case s of
              [] \<Rightarrow> None
            | c # cs \<Rightarrow> if c = 0x002D then match_item_text 1 cs else None)
      else None)"

text \<open>\<^verbatim>\<open>/\n/g\<close>.\<close>

definition match_newline :: matcher where
  "match_newline prev s = (case s of [] \<Rightarrow> None | c # cs \<Rightarrow> if c = 0x000A then Some ([], 1) else None)"

definition wrap_tag :: "string \<Rightarrow> jsstr \<Rightarrow> jsstr" where
  "wrap_tag tag group1 = js_of ''<'' @ js_of tag @ js_of ''>'' @ group1 @ js_of ''</'' @ js_of tag @ js_of ''>''"

definition markdownToHtml :: "jsstr js_optional \<Rightarrow> jsstr" where
  "markdownToHtml markdown =
     (if \<not> truthy_str markdown then []
      else (case markdown of
              Present m0 \<Rightarrow>
                (let m1 = replace (match_heading (js_of ''### '')) (wrap_tag ''h5'') m0;
                     m2 = replace (match_heading (js_of ''## '')) (wrap_tag ''h4'') m1;
                     m3 = replace (match_heading (js_of ''# '')) (wrap_tag ''h3'') m2;
                     m4 = replace (match_delimited (js_of ''**'')) (wrap_tag ''strong'') m3;
                     m5 = replace (match_delimited (js_of ''*'')) (wrap_tag ''em'') m4;
                     m6 = replace match_ordered_item (wrap_tag ''li'') m5;
                     m7 = replace match_unordered_item (wrap_tag ''li'') m6;
                     m8 = replace match_newline (\<lambda>group1. js_of ''<br>'') m7
                 in m8)
            | _ \<Rightarrow> []))"

section \<open>The data of a status response\<close>

text \<open>
  The objects that \<^verbatim>\<open>response.json()\<close> yields for the status endpoint, with the
  property names of the source (prefixed where two objects share a name). A report has all
  its lists; the texts that go through \<^verbatim>\<open>markdownToHtml\<close>, the title of a source, the
  report and the error string may be missing.
\<close>

record source_ref =
  url :: jsstr
  title :: "jsstr js_optional"

record analysis_step =
  question :: jsstr
  answer :: "jsstr js_optional"
  step_sources :: "jsstr list"

record report =
  topic :: jsstr
  summary :: "jsstr js_optional"
  key_findings :: "jsstr js_optional list"
  detailed_analysis :: "jsstr js_optional"
  analysis_steps :: "analysis_step list"
  sources :: "source_ref list"

record job_status =
  status :: jsstr
  progress :: progress_value
  current_step :: jsstr
  report :: "report js_optional"
  error :: "jsstr js_optional"

record start_response =
  research_id :: "jsstr js_optional"

section \<open>The page: DOM elements, global variables, timers and requests\<close>

text \<open>
  The state that the functions of the script read and write: for each of the four cards
  whether its class list holds \<^verbatim>\<open>d-none\<close> (the card is hidden), the properties of
  the elements that the script sets, the two global variables, and of the browser the live
  \<^verbatim>\<open>setInterval\<close> timers, the requests that are under way and what
  \<^verbatim>\<open>console.error\<close> has printed (label and message). The three places where
  \<^verbatim>\<open>updateProgress\<close> writes the percentage hold the number written: \<open>p\<close> for the width
  \<^verbatim>\<open>p%\<close>, for the attribute \<^verbatim>\<open>aria-valuenow\<close> and for the text \<^verbatim>\<open>p%\<close>.
  \<^verbatim>\<open>researchSteps.innerHTML\<close> is emptied and then, for each analysis step, set to what it
  reads back followed by a template; reading it back serialises the parsed document, which
  is not modelled: the page holds the templates appended, in order. Each request of the start
  endpoint carries what the suspended \<^verbatim>\<open>handleSubmitResearch\<close> holds; each request of
  the status endpoint carries the research id of its URL.
\<close>

record start_request =
  req_topic :: jsstr
  req_depth_value :: jsstr
  req_max_sources_value :: jsstr

record page =
  formCard_d_none :: bool
  researchProgress_d_none :: bool
  researchResults_d_none :: bool
  errorCard_d_none :: bool
  startResearchBtn_disabled :: bool
  startResearchBtn_innerHTML :: jsstr
  newResearchBtn_disabled :: bool
  progressTopic_textContent :: jsstr
  progressBar_style_width :: js_number
  progressBar_aria_valuenow :: js_number
  progressBar_textContent :: js_number
  currentStep_textContent :: jsstr
  reportTopic_textContent :: jsstr
  reportSummary_innerHTML :: jsstr
  keyFindings_items :: "jsstr list"
  detailedAnalysis_innerHTML :: jsstr
  researchSteps_appended :: "jsstr list"
  sources_items :: "jsstr list"
  errorMessage_textContent :: jsstr
  activeResearchId :: "jsstr js_optional"
  pollingTimer :: "nat option"
  intervals :: "nat list"
  next_timer_id :: nat
  start_requests :: "start_request list"
  status_requests :: "jsstr js_optional list"
  console_errors :: "(jsstr \<times> jsstr) list"

text \<open>The page as index.html delivers it, with the initial values of the globals.\<close>

definition init_page :: page where
  \<open>init_page = \<lparr>
     formCard_d_none = False,
     researchProgress_d_none = True,
     researchResults_d_none = True,
     errorCard_d_none = True,
     startResearchBtn_disabled = False,
     startResearchBtn_innerHTML =
       [0x000A] @ js_of ''                                    <i class="bi bi-play-fill me-2"></i>'' @
       [0x5F00, 0x59CB, 0x7814, 0x7A76, 0x000A] @ js_of ''                                '',
     newResearchBtn_disabled = True,
     progressTopic_textContent = [],
     progressBar_style_width = Integer 0,
     progressBar_aria_valuenow = Integer 0,
     progressBar_textContent = Integer 0,
     currentStep_textContent = [],
     reportTopic_textContent = [],
     reportSummary_innerHTML = [],
     keyFindings_items = [],
     detailedAnalysis_innerHTML = [],
     researchSteps_appended = [],
     sources_items = [],
     errorMessage_textContent = [],
     activeResearchId = Null,
     pollingTimer = None,
     intervals = [],
     next_timer_id = 1,
     start_requests = [],
     status_requests = [],
     console_errors = []
   \<rparr>\<close>

section \<open>The view functions\<close>

definition updateProgress :: "js_number \<Rightarrow> jsstr \<Rightarrow> page \<Rightarrow> page" where
  "updateProgress percentage step s =
     s\<lparr>progressBar_style_width :=
         (if valid_width percentage then percentage else progressBar_style_width s),
       progressBar_aria_valuenow := percentage,
       progressBar_textContent := percentage,
       currentStep_textContent := step\<rparr>"

text \<open>The literal of \<^verbatim>\<open>showProgressView\<close>: "initialising...".\<close>

definition INITIALIZING :: jsstr where
  "INITIALIZING = [0x521D, 0x59CB, 0x5316, 0x4E2D] @ js_of ''...''"

definition showProgressView :: "jsstr \<Rightarrow> page \<Rightarrow> page" where
  "showProgressView topic_text s =
     updateProgress (Integer 0) INITIALIZING
       (s\<lparr>formCard_d_none := True,
          researchResults_d_none := True,
          errorCard_d_none := True,
          researchProgress_d_none := False,
          progressTopic_textContent := topic_text\<rparr>)"

definition STATUS_completed :: jsstr where
  "STATUS_completed = js_of ''completed''"

definition STATUS_failed :: jsstr where
  "STATUS_failed = js_of ''failed''"

definition updateProgressView :: "job_status \<Rightarrow> page \<Rightarrow> page" where
  "updateProgressView st s =
     (let progressPercentage = Math_round_100 (progress st);
          s1 = updateProgress progressPercentage (current_step st) s
      in if status st = STATUS_completed \<or> status st = STATUS_failed
         then s1\<lparr>newResearchBtn_disabled := False\<rparr>
         else s1)"

text \<open>\<^verbatim>\<open>Array.prototype.join\<close>.\<close>

fun join :: "jsstr \<Rightarrow> jsstr list \<Rightarrow> jsstr" where
  "join sep [] = []"
| "join sep [x] = x"
| "join sep (x # y # ys) = x @ sep @ join sep (y # ys)"

text \<open>The literal for a step without citations: "no specific sources".\<close>

definition NO_SPECIFIC_SOURCES :: jsstr where
  "NO_SPECIFIC_SOURCES = [0x65E0, 0x7279, 0x5B9A, 0x6765, 0x6E90]"

text \<open>
  The template literal that \<^verbatim>\<open>showResults\<close> appends to
  \<^verbatim>\<open>researchSteps.innerHTML\<close> for the step at \<open>index\<close>, line breaks and indentation
  included.
\<close>

definition accordion_item :: "nat \<Rightarrow> analysis_step \<Rightarrow> jsstr" where
  \<open>accordion_item index step =
     (let headingId = js_of ''heading-'' @ decimal index;
          collapseId = js_of ''collapse-'' @ decimal index
      in [0x000A] @ js_of ''            <div class="accordion-item">'' @
         [0x000A] @ js_of ''                <h2 class="accordion-header" id="'' @ headingId @
         js_of ''">'' @
         [0x000A] @ js_of ''                    <button class="accordion-button collapsed" type="button" data-bs-toggle="collapse" '' @
         [0x000A] @ js_of ''                            data-bs-target="#'' @ collapseId @
         js_of ''" aria-expanded="false" aria-controls="'' @ collapseId @
         js_of ''">'' @
         [0x000A] @ js_of ''                        '' @ question step @
         [0x000A] @ js_of ''                    </button>'' @
         [0x000A] @ js_of ''                </h2>'' @
         [0x000A] @ js_of ''                <div id="'' @ collapseId @
         js_of ''" class="accordion-collapse collapse" aria-labelledby="'' @ headingId @
         js_of ''" '' @
         [0x000A] @ js_of ''                     data-bs-parent="#researchSteps">'' @
         [0x000A] @ js_of ''                    <div class="accordion-body">'' @
         [0x000A] @ js_of ''                        <p>'' @ markdownToHtml (answer step) @
         js_of ''</p>'' @
         [0x000A] @ js_of ''                        <p class="mt-2 text-muted small">'' @
         [0x000A] @ js_of ''                            <strong>'' @ [0x6765, 0x6E90] @ js_of '':</strong> '' @
         (if length (step_sources step) > 0 then join (js_of '', '') (step_sources step)
          else NO_SPECIFIC_SOURCES) @
         [0x000A] @ js_of ''                        </p>'' @
         [0x000A] @ js_of ''                    </div>'' @
         [0x000A] @ js_of ''                </div>'' @
         [0x000A] @ js_of ''            </div>'' @
         [0x000A] @ js_of ''        '')\<close>

text \<open>The \<^verbatim>\<open>forEach\<close> over \<^verbatim>\<open>analysis_steps\<close>, from the index \<open>i\<close> on.\<close>

fun accordion_items :: "nat \<Rightarrow> analysis_step list \<Rightarrow> jsstr list" where
  "accordion_items i [] = []"
| "accordion_items i (step # steps) = accordion_item i step # accordion_items (Suc i) steps"

text \<open>The title of a source if it has one that is not empty, its URL otherwise.\<close>

definition linkText :: "source_ref \<Rightarrow> jsstr" where
  "linkText source =
     (case title source of
        Present t \<Rightarrow> if t \<noteq> [] then t else url source
      | _ \<Rightarrow> url source)"

definition source_item :: "source_ref \<Rightarrow> jsstr" where
  \<open>source_item source =
     js_of ''<a href="'' @ url source @ js_of ''" target="_blank">'' @ linkText source @ js_of ''</a>''\<close>

definition showResults :: "job_status \<Rightarrow> page \<Rightarrow> page" where
  "showResults st s =
     (if \<not> truthy_obj (report st) then s
      else (case report st of
              Present r \<Rightarrow>
                s\<lparr>researchProgress_d_none := True,
                  errorCard_d_none := True,
                  researchResults_d_none := False,
                  reportTopic_textContent := topic r,
                  reportSummary_innerHTML := markdownToHtml (summary r),
                  keyFindings_items := map markdownToHtml (key_findings r),
                  detailedAnalysis_innerHTML := markdownToHtml (detailed_analysis r),
                  researchSteps_appended := accordion_items 0 (analysis_steps r),
                  sources_items := map source_item (sources r)\<rparr>
            | _ \<Rightarrow> s))"

definition showError :: "jsstr \<Rightarrow> page \<Rightarrow> page" where
  "showError message s =
     s\<lparr>researchProgress_d_none := True,
       researchResults_d_none := True,
       errorCard_d_none := False,
       errorMessage_textContent := message\<rparr>"

section \<open>The polling controller\<close>

text \<open>
  \<^verbatim>\<open>setInterval\<close> returns a handle that is not zero and was not returned before;
  \<^verbatim>\<open>clearInterval\<close> ends the timer with that handle. \<^verbatim>\<open>if (pollingTimer)\<close> holds for
  a handle that is neither \<^verbatim>\<open>null\<close> nor zero.
\<close>

definition stopPolling :: "page \<Rightarrow> page" where
  "stopPolling s =
     (case pollingTimer s of
        Some t \<Rightarrow>
          if t \<noteq> 0 then s\<lparr>intervals := removeAll t (intervals s), pollingTimer := None\<rparr> else s
      | None \<Rightarrow> s)"

definition startPolling :: "page \<Rightarrow> page" where
  "startPolling s =
     (if \<not> truthy_str (activeResearchId s) then s
      else s\<lparr>pollingTimer := Some (next_timer_id s),
             intervals := intervals s @ [next_timer_id s],
             next_timer_id := Suc (next_timer_id s)\<rparr>)"

text \<open>The button label that \<^verbatim>\<open>resetResearch\<close> and the failure branch of the submit handler restore.\<close>

definition START_BUTTON_HTML :: jsstr where
  \<open>START_BUTTON_HTML = js_of ''<i class="bi bi-play-fill me-2"></i>'' @ [0x5F00, 0x59CB, 0x7814, 0x7A76]\<close>

definition resetResearch :: "page \<Rightarrow> page" where
  "resetResearch s =
     (stopPolling s)
       \<lparr>activeResearchId := Null,
        startResearchBtn_disabled := False,
        startResearchBtn_innerHTML := START_BUTTON_HTML,
        formCard_d_none := False,
        researchProgress_d_none := True,
        researchResults_d_none := True,
        errorCard_d_none := True\<rparr>"

section \<open>Requests and their outcomes\<close>

text \<open>
  How a \<^verbatim>\<open>fetch\<close> ends: the promise is rejected with an error message, or it yields a
  response with a status code whose body \<^verbatim>\<open>response.json()\<close> either rejects or parses.
\<close>

datatype 'a body = InvalidJson jsstr | Json 'a

datatype 'a settlement = Rejected jsstr | Responded nat "'a body"

text \<open>\<^verbatim>\<open>response.ok\<close>: the status code is in the range 200 to 299.\<close>

definition response_ok :: "nat \<Rightarrow> bool" where
  "response_ok code \<longleftrightarrow> 200 \<le> code \<and> code \<le> 299"

text \<open>The prefix of the message thrown for a response that is not ok: "API error: ".\<close>

definition API_ERROR :: jsstr where
  "API_ERROR = js_of ''API'' @ [0x9519, 0x8BEF] @ js_of '': ''"

text \<open>
  What both request sites do with a settled fetch: throw for a response that is not ok, and
  hand on the parsed body otherwise. The left summand is the message of the error thrown.
\<close>

definition response_json :: "'a settlement \<Rightarrow> jsstr + 'a" where
  "response_json outcome =
     (case outcome of
        Rejected msg \<Rightarrow> Inl msg
      | Responded code b \<Rightarrow>
          if \<not> response_ok code then Inl (API_ERROR @ decimal code)
          else (case b of InvalidJson msg \<Rightarrow> Inl msg | Json v \<Rightarrow> Inr v))"

text \<open>\<^verbatim>\<open>fetchResearchStatus\<close> behind its \<^verbatim>\<open>fetch\<close>.\<close>

definition fetchResearchStatus :: "job_status settlement \<Rightarrow> jsstr + job_status" where
  "fetchResearchStatus outcome = response_json outcome"

section \<open>handleSubmitResearch\<close>

text \<open>The message for an empty topic: "please enter a research topic".\<close>

definition ENTER_TOPIC :: jsstr where
  "ENTER_TOPIC = [0x8BF7, 0x8F93, 0x5165, 0x7814, 0x7A76, 0x4E3B, 0x9898]"

text \<open>The button label while the start request is under way.\<close>

definition STARTING_BUTTON_HTML :: jsstr where
  \<open>STARTING_BUTTON_HTML =
     js_of ''<span class="spinner-border spinner-border-sm" role="status" aria-hidden="true"></span> '' @
     [0x6B63, 0x5728, 0x542F, 0x52A8] @ js_of ''...''\<close>

text \<open>The label of the console entry and the prefix of the message: "starting the research failed".\<close>

definition START_FAILED :: jsstr where
  "START_FAILED = [0x542F, 0x52A8, 0x7814, 0x7A76, 0x5931, 0x8D25] @ js_of '':''"

text \<open>
  The handler up to its first \<^verbatim>\<open>await\<close>: the arguments are the values of the three
  inputs. \<^verbatim>\<open>parseInt\<close> of the two numeric inputs only feeds the request body, which the
  script never reads again, so the request keeps the raw values.
\<close>

definition handleSubmitResearch :: "jsstr \<Rightarrow> jsstr \<Rightarrow> jsstr \<Rightarrow> page \<Rightarrow> page" where
  "handleSubmitResearch topic_value depth_value max_sources_value s =
     (let topic_text = trim topic_value
      in if topic_text = [] then showError ENTER_TOPIC s
         else s\<lparr>startResearchBtn_disabled := True,
                startResearchBtn_innerHTML := STARTING_BUTTON_HTML,
                start_requests := start_requests s @
                  [\<lparr>req_topic = topic_text, req_depth_value = depth_value,
                    req_max_sources_value = max_sources_value\<rparr>]\<rparr>)"

text \<open>
  The handler from the settlement of its request on: the \<^verbatim>\<open>try\<close> block behind the
  \<^verbatim>\<open>await\<close>, and the \<^verbatim>\<open>catch\<close> block.
\<close>

definition handleSubmitResearch_resume :: "start_request \<Rightarrow> start_response settlement \<Rightarrow> page \<Rightarrow> page" where
  "handleSubmitResearch_resume req outcome s =
     (case response_json outcome of
        Inr data \<Rightarrow>
          startPolling (showProgressView (req_topic req) (s\<lparr>activeResearchId := research_id data\<rparr>))
      | Inl msg \<Rightarrow>
          (showError (START_FAILED @ js_of '' '' @ msg)
             (s\<lparr>console_errors := console_errors s @ [(START_FAILED, msg)]\<rparr>))
            \<lparr>startResearchBtn_disabled := False,
             startResearchBtn_innerHTML := START_BUTTON_HTML\<rparr>)"

section \<open>The callback of the polling timer\<close>

text \<open>The prefix of the message for a failed job: "research failed: ".\<close>

definition RESEARCH_FAILED :: jsstr where
  "RESEARCH_FAILED = [0x7814, 0x7A76, 0x5931, 0x8D25] @ js_of '': ''"

text \<open>The fallback for a failed job without an error string: "unknown error".\<close>

definition UNKNOWN_ERROR :: jsstr where
  "UNKNOWN_ERROR = [0x672A, 0x77E5, 0x9519, 0x8BEF]"

text \<open>The label and prefix for a status request that failed: "fetching the research status failed".\<close>

definition STATUS_FETCH_FAILED :: jsstr where
  "STATUS_FETCH_FAILED = [0x83B7, 0x53D6, 0x7814, 0x7A76, 0x72B6, 0x6001, 0x5931, 0x8D25] @ js_of '':''"

text \<open>\<^verbatim>\<open>status.error || fallback\<close>.\<close>

definition error_or :: "jsstr js_optional \<Rightarrow> jsstr \<Rightarrow> jsstr" where
  "error_or e fallback = (case e of Present x \<Rightarrow> if x \<noteq> [] then x else fallback | _ \<Rightarrow> fallback)"

text \<open>
  The callback up to its \<^verbatim>\<open>await\<close>: it sends the status request for the value that
  \<^verbatim>\<open>activeResearchId\<close> has when the timer fires.
\<close>

definition pollingCallback :: "page \<Rightarrow> page" where
  "pollingCallback s = s\<lparr>status_requests := status_requests s @ [activeResearchId s]\<rparr>"

text \<open>The callback from the settlement of its request on. It tests nothing but the result.\<close>

definition pollingCallback_resume :: "job_status settlement \<Rightarrow> page \<Rightarrow> page" where
  "pollingCallback_resume outcome s =
     (case fetchResearchStatus outcome of
        Inr st \<Rightarrow>
          (let s1 = updateProgressView st s
           in if status st = STATUS_completed \<or> status st = STATUS_failed
              then (let s2 = stopPolling s1
                    in if status st = STATUS_completed then showResults st s2
                       else if status st = STATUS_failed
                       then showError (RESEARCH_FAILED @ error_or (error st) UNKNOWN_ERROR) s2
                       else s2)
              else s1)
      | Inl msg \<Rightarrow>
          showError (STATUS_FETCH_FAILED @ js_of '' '' @ msg)
            (stopPolling (s\<lparr>console_errors := console_errors s @ [(STATUS_FETCH_FAILED, msg)]\<rparr>)))"

section \<open>Events\<close>

text \<open>
  What can happen to the page: the form is submitted with the values of its inputs, one of
  the three "new research" buttons is clicked, a live timer fires, or a request that is
  under way settles. \<open>step\<close> is \<open>None\<close> where the event cannot happen: the form cannot be
  submitted while its card is hidden or its submit button is disabled, nor with an empty
  topic (the input is \<^verbatim>\<open>required\<close>); a button cannot be clicked while its card is hidden
  or it is disabled; a timer that was cleared does not fire. \<^verbatim>\<open>init\<close> binds
  \<^verbatim>\<open>handleSubmitResearch\<close> to the form and \<^verbatim>\<open>resetResearch\<close> to the three buttons.
\<close>

datatype event =
    Submit jsstr jsstr jsstr
  | ClickNewResearchBtn
  | ClickNewResearchBtnEnd
  | ClickNewResearchBtnError
  | TimerFires nat
  | StartSettles nat "start_response settlement"
  | StatusSettles nat "job_status settlement"

text \<open>The requests that stay under way when the one at position \<open>i\<close> settles.\<close>

definition others :: "nat \<Rightarrow> 'a list \<Rightarrow> 'a list" where
  "others i requests = take i requests @ drop (Suc i) requests"

fun step :: "page \<Rightarrow> event \<Rightarrow> page option" where
  "step s (Submit topic_value depth_value max_sources_value) =
     (if formCard_d_none s \<or> startResearchBtn_disabled s \<or> topic_value = [] then None
      else Some (handleSubmitResearch topic_value depth_value max_sources_value s))"
| "step s ClickNewResearchBtn =
     (if researchProgress_d_none s \<or> newResearchBtn_disabled s then None
      else Some (resetResearch s))"
| "step s ClickNewResearchBtnEnd =
     (if researchResults_d_none s then None else Some (resetResearch s))"
| "step s ClickNewResearchBtnError =
     (if errorCard_d_none s then None else Some (resetResearch s))"
| "step s (TimerFires t) =
     (if t \<in> set (intervals s) then Some (pollingCallback s) else None)"
| "step s (StartSettles i outcome) =
     (if i < length (start_requests s)
      then Some (handleSubmitResearch_resume (start_requests s ! i) outcome
                   (s\<lparr>start_requests := others i (start_requests s)\<rparr>))
      else None)"
| "step s (StatusSettles i outcome) =
     (if i < length (status_requests s)
      then Some (pollingCallback_resume outcome
                   (s\<lparr>status_requests := others i (status_requests s)\<rparr>))
      else None)"

fun run :: "page \<Rightarrow> event list \<Rightarrow> page option" where
  "run s [] = Some s"
| "run s (e # es) = (case step s e of None \<Rightarrow> None | Some s' \<Rightarrow> run s' es)"

text \<open>The four view regions and which of them a page shows.\<close>

definition form_visible :: "page \<Rightarrow> bool" where
  "form_visible s \<longleftrightarrow> \<not> formCard_d_none s"

definition progress_visible :: "page \<Rightarrow> bool" where
  "progress_visible s \<longleftrightarrow> \<not> researchProgress_d_none s"

definition results_visible :: "page \<Rightarrow> bool" where
  "results_visible s \<longleftrightarrow> \<not> researchResults_d_none s"

definition error_visible :: "page \<Rightarrow> bool" where
  "error_visible s \<longleftrightarrow> \<not> errorCard_d_none s"

definition visible_regions :: "page \<Rightarrow> nat" where
  "visible_regions s =
     length (filter id [form_visible s, progress_visible s, results_visible s, error_visible s])"

section \<open>Example data\<close>

text \<open>
  Concrete inputs for the examples of the specification: a response that parses, a submit
  event with the default depth and number of sources of the form, and status objects of the
  three kinds.
\<close>

definition ok :: "'a \<Rightarrow> 'a settlement" where
  "ok v = Responded 200 (Json v)"

definition submit_topic :: "jsstr \<Rightarrow> event" where
  "submit_topic topic_value = Submit topic_value (js_of ''3'') (js_of ''10'')"

definition started :: "string \<Rightarrow> start_response settlement" where
  "started rid = ok \<lparr>research_id = Present (js_of rid)\<rparr>"


definition failed :: "jsstr js_optional \<Rightarrow> job_status" where
  "failed e =
     \<lparr>status = js_of ''failed'', progress = Percentage (Integer 60),
      current_step = js_of ''searching'',
      report = Undefined, error = e\<rparr>"

definition completed :: "report js_optional \<Rightarrow> job_status" where
  "completed r =
     \<lparr>status = js_of ''completed'', progress = Percentage (Integer 100),
      current_step = js_of ''done'',
      report = r, error = Undefined\<rparr>"

definition example_report :: report where
  "example_report =
     \<lparr>topic = js_of ''AI'',
      summary = Present (js_of ''*s*''),
      key_findings = [],
      detailed_analysis = Undefined,
      analysis_steps = [],
      sources = [\<lparr>url = js_of ''http://a'', title = Present []\<rparr>]\<rparr>"


text \<open>
  Which of the four regions a page shows (form, progress, results, error), and the state of
  the controller: the research id, the timer handle, the live timers and the status
  requests under way.
\<close>

definition regions :: "page \<Rightarrow> bool \<times> bool \<times> bool \<times> bool" where
  "regions s = (form_visible s, progress_visible s, results_visible s, error_visible s)"

definition controller :: "page \<Rightarrow> jsstr js_optional \<times> nat option \<times> nat list \<times> jsstr js_optional list" where
  "controller s = (activeResearchId s, pollingTimer s, intervals s, status_requests s)"




text \<open>
  A blank topic is submitted, which shows the error card beside the form; topic A is
  submitted; while its start request is under way the user clicks "new research" on the
  error card, which enables the submit button again, and submits topic B; then both start
  requests settle.
\<close>

definition leak_trace :: "event list" where
  "leak_trace =
     [submit_topic (js_of '' ''), submit_topic (js_of ''A''), ClickNewResearchBtnError,
      submit_topic (js_of ''B''), StartSettles 0 (started ''r1''), StartSettles 0 (started ''r2'')]"

text \<open>
  The invariant of the schedule: the live timers are exactly the one that \<open>pollingTimer\<close>
  holds, if it holds one; the handle is not zero; the form is hidden while a timer is
  live; at most one start request is under way, and none while a timer is live.
\<close>

definition single_timer :: "page \<Rightarrow> bool" where
  "single_timer s \<longleftrightarrow>
     intervals s = (case pollingTimer s of None \<Rightarrow> [] | Some t \<Rightarrow> [t]) \<and>
     pollingTimer s \<noteq> Some 0 \<and>
     (pollingTimer s = None \<or> formCard_d_none s) \<and>
     next_timer_id s \<noteq> 0 \<and>
     length (start_requests s) \<le> 1 \<and>
     (start_requests s = [] \<or> pollingTimer s = None)"

text \<open>
  A sequence of events in which every start request settles before anything else happens:
  while a start request is under way, the next event is its settlement.
\<close>

fun is_start_settlement :: "event \<Rightarrow> bool" where
  "is_start_settlement (StartSettles i outcome) = True"
| "is_start_settlement _ = False"

fun prompt :: "page \<Rightarrow> event list \<Rightarrow> bool" where
  "prompt s [] = True"
| "prompt s (e # es) =
     ((start_requests s = [] \<or> is_start_settlement e) \<and>
      (case step s e of None \<Rightarrow> True | Some s' \<Rightarrow> prompt s' es))"

text \<open>
  What a browser makes of the markup of one item of the list of sources: the text of its
  first anchor element. Only the simplest markup is covered, by the rules of the HTML
  parser for it: the start tag as \<^verbatim>\<open>showResults\<close> writes it, whose \<^verbatim>\<open>href\<close> value ends at
  the first double quote; then character data that the parser takes as it is (no
  \<^verbatim>\<open><\<close>, which opens a tag, no \<^verbatim>\<open>&\<close>, which opens a character reference, no NUL
  and no CR, which the parser drops or replaces); then the end tag of the anchor. For any
  other markup the result is \<open>None\<close>: not covered.
\<close>

fun strip_prefix :: "jsstr \<Rightarrow> jsstr \<Rightarrow> jsstr option" where
  "strip_prefix [] s = Some s"
| "strip_prefix (p # ps) [] = None"
| "strip_prefix (p # ps) (c # cs) = (if p = c then strip_prefix ps cs else None)"

definition plain_text_char :: "jschar \<Rightarrow> bool" where
  "plain_text_char c \<longleftrightarrow> c \<noteq> 0x003C \<and> c \<noteq> 0x0026 \<and> c \<noteq> 0x0000 \<and> c \<noteq> 0x000D"

definition displayed_link_text :: "jsstr \<Rightarrow> jsstr option" where
  \<open>displayed_link_text markup =
     (case strip_prefix (js_of ''<a href="'') markup of
        None \<Rightarrow> None
      | Some behind_quote \<Rightarrow>
          (case strip_prefix (js_of ''" target="_blank">'')
                  (dropWhile (\<lambda>c. c \<noteq> 0x0022) behind_quote) of
             None \<Rightarrow> None
           | Some content \<Rightarrow>
               (let shown = takeWhile plain_text_char content
                in if starts_with (js_of ''</a>'') (drop (length shown) content)
                   then Some shown else None)))\<close>

text \<open>A source whose title holds an end tag.\<close>

definition source_with_end_tag :: source_ref where
  "source_with_end_tag = \<lparr>url = js_of ''http://a'', title = Present (js_of ''x</a>y'')\<rparr>"


section \<open>Properties of the markdown renderer\<close>

lemma replace_all_skip_all: "length s \<le> k \<Longrightarrow> replace_all m tpl k prev s = []"
proof (induction s arbitrary: k prev)
  case Nil
  then show ?case by simp
next
  case (Cons c cs)
  then obtain k' where "k = Suc k'" by (cases k) auto
  with Cons show ?case by simp
qed

lemma replace_all_unanchored_id:
  assumes "\<And>c cs. \<not> is_line_terminator c \<Longrightarrow> m (Some c) cs = None"
    and "\<forall>c\<in>set s. \<not> is_line_terminator c"
    and "\<not> is_line_terminator c0"
  shows "replace_all m tpl 0 (Some c0) s = s"
  using assms(2,3)
  by (induction s arbitrary: c0) (simp_all add: assms(1))

lemma replace_all_trigger_id:
  assumes "\<And>p c cs. c \<noteq> x \<Longrightarrow> m p (c # cs) = None"
    and "x \<notin> set s"
  shows "replace_all m tpl 0 prev s = s"
  using assms(2)
  by (induction s arbitrary: prev) (auto simp: assms(1))

lemma match_heading_anchored: "\<not> is_line_terminator c \<Longrightarrow> match_heading marker (Some c) cs = None"
  by (simp add: match_heading_def)

lemma match_ordered_anchored: "\<not> is_line_terminator c \<Longrightarrow> match_ordered_item (Some c) cs = None"
  by (simp add: match_ordered_item_def)

lemma match_unordered_anchored: "\<not> is_line_terminator c \<Longrightarrow> match_unordered_item (Some c) cs = None"
  by (simp add: match_unordered_item_def)

lemma match_delimited_trigger: "d = x # d' \<Longrightarrow> c \<noteq> x \<Longrightarrow> match_delimited d p (c # cs) = None"
  by (auto simp add: match_delimited_def)

lemma match_newline_trigger: "c \<noteq> 0x000A \<Longrightarrow> match_newline p (c # cs) = None"
  by (simp add: match_newline_def)

lemma rest_of_line_id: "\<forall>c\<in>set t. \<not> is_line_terminator c \<Longrightarrow> rest_of_line t = t"
  by (simp add: rest_of_line_def)

text \<open>
  A line that an expression anchored by \<^verbatim>\<open>^\<close> does not match at its start is left as
  it is.
\<close>

lemma replace_line_id:
  assumes anch: "\<forall>c cs. \<not> is_line_terminator c \<longrightarrow> m (Some c) cs = None"
    and first: "m None s = None"
    and line: "\<forall>c\<in>set s. \<not> is_line_terminator c"
  shows "replace m tpl s = s"
proof (cases s)
  case Nil
  then show ?thesis by (simp add: replace_def)
next
  case (Cons c cs)
  with line have "\<not> is_line_terminator c" "\<forall>c\<in>set cs. \<not> is_line_terminator c" by simp_all
  then have "replace_all m tpl 0 (Some c) cs = cs"
    using anch by (intro replace_all_unanchored_id) auto
  with Cons first show ?thesis by (simp add: replace_def)
qed

lemma starts_with_append: "starts_with p (p @ t)"
  by (induction p) auto

lemma replace_heading_line:
  assumes line: "\<forall>c\<in>set t. \<not> is_line_terminator c" and ne: "marker \<noteq> []"
  shows "replace (match_heading marker) tpl (marker @ t) = tpl t"
proof -
  from ne obtain c cs where split: "marker @ t = c # cs" by (cases marker) auto
  then have len: "length cs = length marker + length t - 1"
    by (metis length_append length_Cons diff_Suc_1)
  have "match_heading marker None (c # cs) = Some (t, length marker + length t)"
    using line split [symmetric] by (simp add: match_heading_def starts_with_append rest_of_line_id)
  then show ?thesis
    using len by (simp add: replace_def split replace_all_skip_all)
qed

lemma markdownToHtml_Present:
  "m0 \<noteq> [] \<Longrightarrow> markdownToHtml (Present m0) =
     replace match_newline (\<lambda>group1. js_of ''<br>'')
       (replace match_unordered_item (wrap_tag ''li'')
         (replace match_ordered_item (wrap_tag ''li'')
           (replace (match_delimited (js_of ''*'')) (wrap_tag ''em'')
             (replace (match_delimited (js_of ''**'')) (wrap_tag ''strong'')
               (replace (match_heading (js_of ''# '')) (wrap_tag ''h3'')
                 (replace (match_heading (js_of ''## '')) (wrap_tag ''h4'')
                   (replace (match_heading (js_of ''### '')) (wrap_tag ''h5'') m0)))))))"
  by (simp add: markdownToHtml_def)

lemma tag_line_unchanged:
  assumes "\<forall>c\<in>set r. \<not> is_line_terminator c \<and> c \<noteq> 0x002A"
  shows "replace match_newline tpl5
           (replace match_unordered_item tpl4
             (replace match_ordered_item tpl3
               (replace (match_delimited (js_of ''*'')) tpl2
                 (replace (match_delimited (js_of ''**'')) tpl1 (0x003C # r))))) = 0x003C # r"
proof -
  let ?s = "0x003C # r"
  have nostar: "0x002A \<notin> set ?s" using assms by auto
  have line: "\<forall>c\<in>set ?s. \<not> is_line_terminator c"
    using assms by (simp add: is_line_terminator_def)
  have nolf: "0x000A \<notin> set ?s" using line by (auto simp: is_line_terminator_def)
  have b: "replace (match_delimited (js_of ''**'')) tpl1 ?s = ?s"
    unfolding replace_def
    by (rule replace_all_trigger_id [where x = "0x002A"])
       (simp_all add: nostar match_delimited_trigger js_of_def del: set_simps)
  have i: "replace (match_delimited (js_of ''*'')) tpl2 ?s = ?s"
    unfolding replace_def
    by (rule replace_all_trigger_id [where x = "0x002A"])
       (simp_all add: nostar match_delimited_trigger js_of_def del: set_simps)
  have o: "replace match_ordered_item tpl3 ?s = ?s"
    by (rule replace_line_id [where m = match_ordered_item, OF _ _ line])
       (simp_all add: match_ordered_item_def is_digit_def)
  have u: "replace match_unordered_item tpl4 ?s = ?s"
    by (rule replace_line_id [where m = match_unordered_item, OF _ _ line])
       (simp_all add: match_unordered_item_def)
  have n: "replace match_newline tpl5 ?s = ?s"
    unfolding replace_def
    by (rule replace_all_trigger_id [where x = "0x000A"])
       (simp_all add: nolf match_newline_trigger del: set_simps)
  show ?thesis by (simp only: b i o u n)
qed

lemma wrap_tag_Cons: "wrap_tag tag t = 0x003C # (js_of tag @ js_of ''>'' @ t @ js_of ''</'' @ js_of tag @ js_of ''>'')"
  by (simp add: wrap_tag_def js_of_def)

lemma markdownToHtml_heading_line:
  assumes "m0 \<noteq> []"
    and "replace (match_heading (js_of ''# '')) (wrap_tag ''h3'')
           (replace (match_heading (js_of ''## '')) (wrap_tag ''h4'')
             (replace (match_heading (js_of ''### '')) (wrap_tag ''h5'') m0)) = wrap_tag tag t"
    and "\<forall>c\<in>set (js_of tag @ js_of ''>'' @ t @ js_of ''</'' @ js_of tag @ js_of ''>'').
           \<not> is_line_terminator c \<and> c \<noteq> 0x002A"
  shows "markdownToHtml (Present m0) = wrap_tag tag t"
  by (simp only: markdownToHtml_Present [OF assms(1)] assms(2))
     (simp only: wrap_tag_Cons tag_line_unchanged [OF assms(3)])

text \<open>
  C10: for \<^verbatim>\<open>undefined\<close>, for \<^verbatim>\<open>null\<close> and for the empty string
  \<^verbatim>\<open>markdownToHtml\<close> returns the empty string, so \<^verbatim>\<open>showResults\<close> may pass a report
  field that is missing: an absent summary is rendered as the empty string.
\<close>

theorem markdownToHtml_absent:
  "markdownToHtml Undefined = [] \<and> markdownToHtml Null = [] \<and> markdownToHtml (Present []) = []"
  by (simp add: markdownToHtml_def)

text \<open>
  C8: \<^verbatim>\<open>markdownToHtml("**bold** and *italic*")\<close> is the fragment "bold" marked
  \<^verbatim>\<open>strong\<close>, the text " and ", and the fragment "italic" marked \<^verbatim>\<open>em\<close>, in this order.
\<close>

theorem markdownToHtml_bold_then_italic:
  "markdownToHtml (Present (js_of ''**bold** and *italic*'')) =
     js_of ''<strong>bold</strong>'' @ js_of '' and '' @ js_of ''<em>italic</em>''"
  by code_simp

text \<open>
  C7: a line "# t", "## t" or "### t" (where t has no line terminator and no asterisk, which
  the later replacements would rewrite) becomes a heading of level h3, h4 or h5: three
  markers, three distinct levels. For the input "# Title\n## Sub" the output is the h3
  heading "Title", a line break and the h4 heading "Sub", in the order of the document.
\<close>

theorem markdownToHtml_heading_levels:
  assumes "\<forall>c\<in>set t. \<not> is_line_terminator c \<and> c \<noteq> 0x002A"
  shows "markdownToHtml (Present (js_of ''# '' @ t)) = js_of ''<h3>'' @ t @ js_of ''</h3>'' \<and>
         markdownToHtml (Present (js_of ''## '' @ t)) = js_of ''<h4>'' @ t @ js_of ''</h4>'' \<and>
         markdownToHtml (Present (js_of ''### '' @ t)) = js_of ''<h5>'' @ t @ js_of ''</h5>'' \<and>
         markdownToHtml (Present (js_of ''# Title'' @ [0x000A] @ js_of ''## Sub'')) =
           js_of ''<h3>Title</h3>'' @ js_of ''<br>'' @ js_of ''<h4>Sub</h4>''"
proof -
  have line: "\<forall>c\<in>set t. \<not> is_line_terminator c" using assms by simp
  have l1: "\<forall>c\<in>set (js_of ''# '' @ t). \<not> is_line_terminator c"
    and l2: "\<forall>c\<in>set (js_of ''## '' @ t). \<not> is_line_terminator c"
    using line by (simp_all add: js_of_def is_line_terminator_def)
  have h3: "\<forall>c\<in>set (js_of ''h3'' @ js_of ''>'' @ t @ js_of ''</'' @ js_of ''h3'' @ js_of ''>''). \<not> is_line_terminator c \<and> c \<noteq> 0x002A"
    and h4: "\<forall>c\<in>set (js_of ''h4'' @ js_of ''>'' @ t @ js_of ''</'' @ js_of ''h4'' @ js_of ''>''). \<not> is_line_terminator c \<and> c \<noteq> 0x002A"
    and h5: "\<forall>c\<in>set (js_of ''h5'' @ js_of ''>'' @ t @ js_of ''</'' @ js_of ''h5'' @ js_of ''>''). \<not> is_line_terminator c \<and> c \<noteq> 0x002A"
    using assms by (auto simp add: js_of_def is_line_terminator_def)
  have a1: "replace (match_heading (js_of ''### '')) tpl (js_of ''# '' @ t) = js_of ''# '' @ t" for tpl
    by (rule replace_line_id [OF _ _ l1]) (simp_all add: match_heading_def js_of_def)
  have a2: "replace (match_heading (js_of ''## '')) tpl (js_of ''# '' @ t) = js_of ''# '' @ t" for tpl
    by (rule replace_line_id [OF _ _ l1]) (simp_all add: match_heading_def js_of_def)
  have b1: "replace (match_heading (js_of ''### '')) tpl (js_of ''## '' @ t) = js_of ''## '' @ t" for tpl
    by (rule replace_line_id [OF _ _ l2]) (simp_all add: match_heading_def js_of_def)
  have hd1: "replace (match_heading (js_of ''# '')) tpl (js_of ''# '' @ t) = tpl t" for tpl
    by (rule replace_heading_line [OF line]) (simp add: js_of_def)
  have hd2: "replace (match_heading (js_of ''## '')) tpl (js_of ''## '' @ t) = tpl t" for tpl
    by (rule replace_heading_line [OF line]) (simp add: js_of_def)
  have hd3: "replace (match_heading (js_of ''### '')) tpl (js_of ''### '' @ t) = tpl t" for tpl
    by (rule replace_heading_line [OF line]) (simp add: js_of_def)
  have t4: "\<forall>c\<in>set (wrap_tag ''h4'' t). \<not> is_line_terminator c"
    using h4 by (simp add: wrap_tag_Cons is_line_terminator_def)
  have t5: "\<forall>c\<in>set (wrap_tag ''h5'' t). \<not> is_line_terminator c"
    using h5 by (simp add: wrap_tag_Cons is_line_terminator_def)
  have c4: "replace (match_heading (js_of ''# '')) tpl (wrap_tag ''h4'' t) = wrap_tag ''h4'' t" for tpl
    by (rule replace_line_id [OF _ _ t4]) (simp_all add: match_heading_def wrap_tag_Cons js_of_def)
  have c5: "replace (match_heading (js_of ''# '')) tpl (wrap_tag ''h5'' t) = wrap_tag ''h5'' t" for tpl
    by (rule replace_line_id [OF _ _ t5]) (simp_all add: match_heading_def wrap_tag_Cons js_of_def)
  have d5: "replace (match_heading (js_of ''## '')) tpl (wrap_tag ''h5'' t) = wrap_tag ''h5'' t" for tpl
    by (rule replace_line_id [OF _ _ t5]) (simp_all add: match_heading_def wrap_tag_Cons js_of_def)
  have ne: "js_of ''# '' @ t \<noteq> []" "js_of ''## '' @ t \<noteq> []" "js_of ''### '' @ t \<noteq> []"
    by (simp_all add: js_of_def)
  have "markdownToHtml (Present (js_of ''# '' @ t)) = wrap_tag ''h3'' t"
    by (rule markdownToHtml_heading_line [OF ne(1) _ h3]) (simp only: a1 a2 hd1)
  then have one: "markdownToHtml (Present (js_of ''# '' @ t)) = js_of ''<h3>'' @ t @ js_of ''</h3>''"
    by (simp add: wrap_tag_def js_of_def)
  have "markdownToHtml (Present (js_of ''## '' @ t)) = wrap_tag ''h4'' t"
    by (rule markdownToHtml_heading_line [OF ne(2) _ h4]) (simp only: b1 hd2 c4)
  then have two: "markdownToHtml (Present (js_of ''## '' @ t)) = js_of ''<h4>'' @ t @ js_of ''</h4>''"
    by (simp add: wrap_tag_def js_of_def)
  have "markdownToHtml (Present (js_of ''### '' @ t)) = wrap_tag ''h5'' t"
    by (rule markdownToHtml_heading_line [OF ne(3) _ h5]) (simp only: hd3 d5 c5)
  then have three: "markdownToHtml (Present (js_of ''### '' @ t)) = js_of ''<h5>'' @ t @ js_of ''</h5>''"
    by (simp add: wrap_tag_def js_of_def)
  have example: "markdownToHtml (Present (js_of ''# Title'' @ [0x000A] @ js_of ''## Sub'')) =
      js_of ''<h3>Title</h3>'' @ js_of ''<br>'' @ js_of ''<h4>Sub</h4>''"
    by code_simp
  from one two three example show ?thesis by (simp only: simp_thms)
qed

theorem markdownToHtml_heading_levels_witness:
  "list_all (\<lambda>c. \<not> is_line_terminator c \<and> c \<noteq> 0x002A) (js_of ''Title'') \<and>
   markdownToHtml (Present (js_of ''# '' @ js_of ''Title'')) = js_of ''<h3>'' @ js_of ''Title'' @ js_of ''</h3>'' \<and>
   markdownToHtml (Present (js_of ''## '' @ js_of ''Title'')) = js_of ''<h4>'' @ js_of ''Title'' @ js_of ''</h4>'' \<and>
   markdownToHtml (Present (js_of ''### '' @ js_of ''Title'')) = js_of ''<h5>'' @ js_of ''Title'' @ js_of ''</h5>''"
proof -
  have h: "\<forall>c\<in>set (js_of ''Title''). \<not> is_line_terminator c \<and> c \<noteq> 0x002A"
    by (simp add: js_of_def is_line_terminator_def)
  have h': "list_all (\<lambda>c. \<not> is_line_terminator c \<and> c \<noteq> 0x002A) (js_of ''Title'')"
    using h by (simp only: list_all_iff)
  from markdownToHtml_heading_levels [OF h] h' show ?thesis by (simp only: simp_thms)
qed

section \<open>Properties of the completed report\<close>

lemma strip_prefix_append: "strip_prefix p (p @ s) = Some s"
  by (induction p) simp_all

lemma displayed_link_text_plain:
  assumes "0x0022 \<notin> set href" and "\<forall>c\<in>set shown. plain_text_char c"
  shows \<open>displayed_link_text
           (js_of ''<a href="'' @ href @ js_of ''" target="_blank">'' @ shown @ js_of ''</a>'') =
         Some shown\<close>
proof -
  have quote: \<open>js_of ''" target="_blank">'' @ shown @ js_of ''</a>'' =
      0x0022 # (js_of '' target="_blank">'' @ shown @ js_of ''</a>'')\<close>
    by (simp add: js_of_def)
  have \<open>dropWhile (\<lambda>c. c \<noteq> 0x0022) (href @ js_of ''" target="_blank">'' @ shown @ js_of ''</a>'') =
      js_of ''" target="_blank">'' @ shown @ js_of ''</a>''\<close>
    using assms(1) unfolding quote by (induction href) simp_all
  moreover have "takeWhile plain_text_char (shown @ js_of ''</a>'') = shown"
    using assms(2) by (induction shown) (simp_all add: js_of_def plain_text_char_def)
  moreover have "starts_with (js_of ''</a>'') (js_of ''</a>'')"
    by (simp add: js_of_def)
  ultimately show ?thesis
    by (simp add: displayed_link_text_def strip_prefix_append)
qed

text \<open>
  C9, as the code has it: for a status with a report, \<^verbatim>\<open>showResults\<close> fills the list of
  sources with one anchor for each source, in order. The link text that it writes between
  the tags of the anchor is the URL if the title is missing, \<^verbatim>\<open>null\<close> or empty, and the
  title otherwise; it is written as HTML, without escaping. Where the URL has no double quote
  and the link text is plain character data, the browser displays the link text as written:
  the URL or the title.
\<close>

theorem showResults_displayed_link_text:
  assumes \<open>report st = Present r\<close>
  shows \<open>sources_items (showResults st s) =
           map (\<lambda>source. js_of ''<a href="'' @ url source @ js_of ''" target="_blank">'' @
                  (case title source of
                     Undefined \<Rightarrow> url source
                   | Null \<Rightarrow> url source
                   | Present t \<Rightarrow> if t = [] then url source else t) @
                  js_of ''</a>'') (sources r) \<and>
         (list_all (\<lambda>source. 0x0022 \<notin> set (url source) \<and> list_all plain_text_char (linkText source))
            (sources r) \<longrightarrow>
          map displayed_link_text (sources_items (showResults st s)) =
            map (\<lambda>source. Some (case title source of
                                  Undefined \<Rightarrow> url source
                                | Null \<Rightarrow> url source
                                | Present t \<Rightarrow> if t = [] then url source else t)) (sources r))\<close>
proof -
  have policy: \<open>linkText =
      (\<lambda>source. case title source of
         Undefined \<Rightarrow> url source
       | Null \<Rightarrow> url source
       | Present t \<Rightarrow> if t = [] then url source else t)\<close>
    by (rule ext) (simp add: linkText_def split: js_optional.split)
  have items: "sources_items (showResults st s) = map source_item (sources r)"
    using assms by (simp add: showResults_def)
  have written: \<open>source_item =
      (\<lambda>source. js_of ''<a href="'' @ url source @ js_of ''" target="_blank">'' @
         linkText source @ js_of ''</a>'')\<close>
    by (rule ext) (simp only: source_item_def)
  have shown: "displayed_link_text (source_item source) = Some (linkText source)"
    if "0x0022 \<notin> set (url source)" "list_all plain_text_char (linkText source)" for source
    unfolding source_item_def
    using that by (intro displayed_link_text_plain) (simp_all add: list_all_iff)
  have displayed: "map displayed_link_text (map source_item (sources r)) =
      map (\<lambda>source. Some (linkText source)) (sources r)"
    if "list_all (\<lambda>source. 0x0022 \<notin> set (url source) \<and> list_all plain_text_char (linkText source)) (sources r)"
    using that by (simp add: list_all_iff shown)
  have one: \<open>sources_items (showResults st s) =
      map (\<lambda>source. js_of ''<a href="'' @ url source @ js_of ''" target="_blank">'' @
             linkText source @ js_of ''</a>'') (sources r)\<close>
    by (simp only: items written)
  have two: "list_all (\<lambda>source. 0x0022 \<notin> set (url source) \<and> list_all plain_text_char (linkText source))
      (sources r) \<longrightarrow>
      map displayed_link_text (sources_items (showResults st s)) =
        map (\<lambda>source. Some (linkText source)) (sources r)"
    using displayed by (simp only: items) blast
  have \<open>sources_items (showResults st s) =
      map (\<lambda>source. js_of ''<a href="'' @ url source @ js_of ''" target="_blank">'' @
             linkText source @ js_of ''</a>'') (sources r) \<and>
    (list_all (\<lambda>source. 0x0022 \<notin> set (url source) \<and> list_all plain_text_char (linkText source))
      (sources r) \<longrightarrow>
      map displayed_link_text (sources_items (showResults st s)) =
        map (\<lambda>source. Some (linkText source)) (sources r))\<close>
    using one two by (rule conjI)
  then show ?thesis
    unfolding policy .
qed

theorem showResults_displayed_link_text_witness:
  \<open>report (completed (Present example_report)) = Present example_report \<and>
   sources example_report = [\<lparr>url = js_of ''http://a'', title = Present []\<rparr>] \<and>
   list_all (\<lambda>source. 0x0022 \<notin> set (url source) \<and> list_all plain_text_char (linkText source))
     (sources example_report) \<and>
   map displayed_link_text (sources_items (showResults (completed (Present example_report)) init_page)) =
     map (\<lambda>source. Some (case title source of
                           Undefined \<Rightarrow> url source
                         | Null \<Rightarrow> url source
                         | Present t \<Rightarrow> if t = [] then url source else t)) (sources example_report) \<and>
   map (\<lambda>source. Some (case title source of
                         Undefined \<Rightarrow> url source
                       | Null \<Rightarrow> url source
                       | Present t \<Rightarrow> if t = [] then url source else t)) (sources example_report) =
     [Some (js_of ''http://a'')]\<close>
proof -
  have h: "report (completed (Present example_report)) = Present example_report"
    by (simp add: completed_def)
  have e: \<open>sources example_report = [\<lparr>url = js_of ''http://a'', title = Present []\<rparr>]\<close>
    by (simp add: example_report_def)
  have c: "list_all (\<lambda>source. 0x0022 \<notin> set (url source) \<and> list_all plain_text_char (linkText source))
      (sources example_report)"
    by (simp add: e linkText_def plain_text_char_def js_of_def)
  have v: \<open>map (\<lambda>source. Some (case title source of
                           Undefined \<Rightarrow> url source
                         | Null \<Rightarrow> url source
                         | Present t \<Rightarrow> if t = [] then url source else t)) (sources example_report) =
      [Some (js_of ''http://a'')]\<close>
    by (simp add: e)
  from showResults_displayed_link_text [OF h, of init_page] c h e v show ?thesis by blast
qed

text \<open>
  C9 as stated fails: for the title "x</a>y" the anchor that the browser builds ends at the
  end tag inside the title, so the link text displayed is "x", not the title.
\<close>

theorem title_with_end_tag_is_cut:
  \<open>linkText source_with_end_tag = js_of ''x</a>y'' \<and>
   sources_items
     (showResults (completed (Present (example_report\<lparr>sources := [source_with_end_tag]\<rparr>))) init_page) =
     [js_of ''<a href="http://a" target="_blank">x</a>y</a>''] \<and>
   map displayed_link_text
     (sources_items
        (showResults (completed (Present (example_report\<lparr>sources := [source_with_end_tag]\<rparr>))) init_page)) =
     [Some (js_of ''x'')]\<close>
  by code_simp

section \<open>Facts about the page functions\<close>


lemma trim_blank:
  assumes "\<forall>c\<in>set v. is_js_whitespace c"
  shows "trim v = []"
proof -
  from assms have "dropWhile is_js_whitespace v = []"
    by (simp only: dropWhile_eq_Nil_conv)
  then show ?thesis by (simp only: trim_def rev.simps dropWhile.simps)
qed

lemma stopPolling_view [simp]:
  "formCard_d_none (stopPolling s) = formCard_d_none s"
  "researchProgress_d_none (stopPolling s) = researchProgress_d_none s"
  "researchResults_d_none (stopPolling s) = researchResults_d_none s"
  "errorCard_d_none (stopPolling s) = errorCard_d_none s"
  by (simp_all add: stopPolling_def split: option.split)

lemma fetch_ok [simp]: "fetchResearchStatus (ok v) = Inr v"
  by (simp add: fetchResearchStatus_def response_json_def ok_def response_ok_def)

lemma fetch_Rejected [simp]: "fetchResearchStatus (Rejected msg) = Inl msg"
  by (simp add: fetchResearchStatus_def response_json_def)

lemma updateProgressView_keeps [simp]:
  "formCard_d_none (updateProgressView st s) = formCard_d_none s"
  "researchProgress_d_none (updateProgressView st s) = researchProgress_d_none s"
  "researchResults_d_none (updateProgressView st s) = researchResults_d_none s"
  "errorCard_d_none (updateProgressView st s) = errorCard_d_none s"
  "reportTopic_textContent (updateProgressView st s) = reportTopic_textContent s"
  "reportSummary_innerHTML (updateProgressView st s) = reportSummary_innerHTML s"
  "keyFindings_items (updateProgressView st s) = keyFindings_items s"
  "detailedAnalysis_innerHTML (updateProgressView st s) = detailedAnalysis_innerHTML s"
  "researchSteps_appended (updateProgressView st s) = researchSteps_appended s"
  "sources_items (updateProgressView st s) = sources_items s"
  "errorMessage_textContent (updateProgressView st s) = errorMessage_textContent s"
  "console_errors (updateProgressView st s) = console_errors s"
  "activeResearchId (updateProgressView st s) = activeResearchId s"
  "pollingTimer (updateProgressView st s) = pollingTimer s"
  "intervals (updateProgressView st s) = intervals s"
  "next_timer_id (updateProgressView st s) = next_timer_id s"
  "start_requests (updateProgressView st s) = start_requests s"
  "status_requests (updateProgressView st s) = status_requests s"
  by (simp_all add: updateProgressView_def updateProgress_def Let_def)

lemma updateProgressView_sets [simp]:
  "currentStep_textContent (updateProgressView st s) = current_step st"
  "progressBar_textContent (updateProgressView st s) = Math_round_100 (progress st)"
  by (simp_all add: updateProgressView_def updateProgress_def Let_def)

lemma stopPolling_keeps [simp]:
  "reportTopic_textContent (stopPolling s) = reportTopic_textContent s"
  "reportSummary_innerHTML (stopPolling s) = reportSummary_innerHTML s"
  "keyFindings_items (stopPolling s) = keyFindings_items s"
  "detailedAnalysis_innerHTML (stopPolling s) = detailedAnalysis_innerHTML s"
  "researchSteps_appended (stopPolling s) = researchSteps_appended s"
  "sources_items (stopPolling s) = sources_items s"
  "errorMessage_textContent (stopPolling s) = errorMessage_textContent s"
  "console_errors (stopPolling s) = console_errors s"
  "currentStep_textContent (stopPolling s) = currentStep_textContent s"
  "progressBar_textContent (stopPolling s) = progressBar_textContent s"
  "activeResearchId (stopPolling s) = activeResearchId s"
  "next_timer_id (stopPolling s) = next_timer_id s"
  "start_requests (stopPolling s) = start_requests s"
  "status_requests (stopPolling s) = status_requests s"
  by (simp_all add: stopPolling_def split: option.split)

lemma showError_fields [simp]:
  "formCard_d_none (showError m s) = formCard_d_none s"
  "researchProgress_d_none (showError m s) = True"
  "researchResults_d_none (showError m s) = True"
  "errorCard_d_none (showError m s) = False"
  "errorMessage_textContent (showError m s) = m"
  "console_errors (showError m s) = console_errors s"
  "currentStep_textContent (showError m s) = currentStep_textContent s"
  "progressBar_textContent (showError m s) = progressBar_textContent s"
  "activeResearchId (showError m s) = activeResearchId s"
  "pollingTimer (showError m s) = pollingTimer s"
  "intervals (showError m s) = intervals s"
  "next_timer_id (showError m s) = next_timer_id s"
  "start_requests (showError m s) = start_requests s"
  "status_requests (showError m s) = status_requests s"
  by (simp_all add: showError_def)

lemma showResults_missing: "\<not> truthy_obj (report st) \<Longrightarrow> showResults st s = s"
  by (cases "report st") (simp_all add: showResults_def)

lemma showResults_fields [simp]:
  "formCard_d_none (showResults st s) = formCard_d_none s"
  "currentStep_textContent (showResults st s) = currentStep_textContent s"
  "progressBar_textContent (showResults st s) = progressBar_textContent s"
  "errorMessage_textContent (showResults st s) = errorMessage_textContent s"
  "console_errors (showResults st s) = console_errors s"
  "activeResearchId (showResults st s) = activeResearchId s"
  "pollingTimer (showResults st s) = pollingTimer s"
  "intervals (showResults st s) = intervals s"
  "next_timer_id (showResults st s) = next_timer_id s"
  "start_requests (showResults st s) = start_requests s"
  "status_requests (showResults st s) = status_requests s"
  by (simp_all add: showResults_def split: js_optional.split)

lemma showResults_Present [simp]:
  "report st = Present r \<Longrightarrow> researchProgress_d_none (showResults st s) = True"
  "report st = Present r \<Longrightarrow> researchResults_d_none (showResults st s) = False"
  "report st = Present r \<Longrightarrow> errorCard_d_none (showResults st s) = True"
  "report st = Present r \<Longrightarrow> reportTopic_textContent (showResults st s) = topic r"
  by (simp_all add: showResults_def)








lemma others_single [simp]: "others 0 [x] = []"
  by (simp add: others_def)






section \<open>Properties of the view regions\<close>

text \<open>
  C2, as the code has it: \<^verbatim>\<open>showProgressView\<close> and \<^verbatim>\<open>resetResearch\<close> leave exactly one
  region visible, whatever was visible before. \<^verbatim>\<open>showError\<close> shows the error region and
  hides the progress and results regions; \<^verbatim>\<open>showResults\<close>, for a status with a report,
  shows the results region and hides the progress and error regions; both leave the form
  region as it was.
\<close>

theorem view_regions_after_entering:
  "visible_regions (showProgressView topic_text s) = 1 \<and>
   progress_visible (showProgressView topic_text s) \<and>
   visible_regions (resetResearch s) = 1 \<and>
   form_visible (resetResearch s) \<and>
   error_visible (showError message s) \<and>
   \<not> progress_visible (showError message s) \<and>
   \<not> results_visible (showError message s) \<and>
   form_visible (showError message s) = form_visible s \<and>
   (report st = Present r \<longrightarrow>
      results_visible (showResults st s) \<and>
      \<not> progress_visible (showResults st s) \<and>
      \<not> error_visible (showResults st s) \<and>
      form_visible (showResults st s) = form_visible s)"
  by (simp add: visible_regions_def form_visible_def progress_visible_def results_visible_def
        error_visible_def showProgressView_def updateProgress_def resetResearch_def
        showError_def showResults_def)

theorem view_regions_after_entering_witness:
  "report (completed (Present example_report)) = Present example_report \<and>
   results_visible (showResults (completed (Present example_report)) init_page) \<and>
   \<not> progress_visible (showResults (completed (Present example_report)) init_page) \<and>
   \<not> error_visible (showResults (completed (Present example_report)) init_page) \<and>
   form_visible (showResults (completed (Present example_report)) init_page)"
proof -
  have h: "report (completed (Present example_report)) = Present example_report"
    by (simp add: completed_def)
  have f: "form_visible init_page" by (simp add: form_visible_def init_page_def)
  from view_regions_after_entering [of _ init_page _ "completed (Present example_report)" example_report] h f
  show ?thesis by simp
qed

text \<open>
  C2 as stated fails: when the start request is rejected, \<^verbatim>\<open>showError\<close> shows the error
  region while the form region is still visible, so two regions are visible.
\<close>

theorem form_and_error_both_visible:
  "map_option regions
     (run init_page [submit_topic (js_of ''AI''), StartSettles 0 (Rejected (js_of ''Failed to fetch''))]) =
     Some (True, False, False, True) \<and>
   map_option visible_regions
     (run init_page [submit_topic (js_of ''AI''), StartSettles 0 (Rejected (js_of ''Failed to fetch''))]) =
     Some 2"
  by code_simp

section \<open>Properties of the submit handler\<close>

text \<open>
  C3, as the code has it: for a topic of white space only (the empty topic among them)
  \<^verbatim>\<open>handleSubmitResearch\<close> does what \<^verbatim>\<open>showError\<close> does with the message "please enter a
  research topic" and nothing else: no request is sent, the research id, the timer and the
  live timers stay as they are, and the form region stays as it was; the error region is
  shown with the message. Submitting the blank topic again changes nothing more.
\<close>

theorem blank_topic_submit:
  assumes "\<forall>c\<in>set topic_value. is_js_whitespace c"
  shows "handleSubmitResearch topic_value depth_value max_sources_value s = showError ENTER_TOPIC s \<and>
         start_requests (handleSubmitResearch topic_value depth_value max_sources_value s) = start_requests s \<and>
         status_requests (handleSubmitResearch topic_value depth_value max_sources_value s) = status_requests s \<and>
         activeResearchId (handleSubmitResearch topic_value depth_value max_sources_value s) = activeResearchId s \<and>
         pollingTimer (handleSubmitResearch topic_value depth_value max_sources_value s) = pollingTimer s \<and>
         intervals (handleSubmitResearch topic_value depth_value max_sources_value s) = intervals s \<and>
         form_visible (handleSubmitResearch topic_value depth_value max_sources_value s) = form_visible s \<and>
         error_visible (handleSubmitResearch topic_value depth_value max_sources_value s) \<and>
         errorMessage_textContent (handleSubmitResearch topic_value depth_value max_sources_value s) = ENTER_TOPIC \<and>
         handleSubmitResearch topic_value depth_value max_sources_value
           (handleSubmitResearch topic_value depth_value max_sources_value s) =
           handleSubmitResearch topic_value depth_value max_sources_value s"
  using trim_blank [OF assms]
  by (simp add: handleSubmitResearch_def showError_def form_visible_def error_visible_def)

theorem blank_topic_submit_witness:
  "list_all is_js_whitespace (js_of ''  '') \<and>
   handleSubmitResearch (js_of ''  '') (js_of ''3'') (js_of ''10'') init_page = showError ENTER_TOPIC init_page \<and>
   start_requests (handleSubmitResearch (js_of ''  '') (js_of ''3'') (js_of ''10'') init_page) = [] \<and>
   form_visible (handleSubmitResearch (js_of ''  '') (js_of ''3'') (js_of ''10'') init_page) \<and>
   error_visible (handleSubmitResearch (js_of ''  '') (js_of ''3'') (js_of ''10'') init_page)"
proof -
  have h: "\<forall>c\<in>set (js_of ''  ''). is_js_whitespace c"
    by (simp add: js_of_def is_js_whitespace_def)
  have h': "list_all is_js_whitespace (js_of ''  '')"
    using h by (simp only: list_all_iff)
  have i: "start_requests init_page = []" "form_visible init_page"
    by (simp_all add: init_page_def form_visible_def)
  from blank_topic_submit [OF h, of "js_of ''3''" "js_of ''10''" init_page] h' i
  show ?thesis by metis
qed

text \<open>
  C3 as stated fails: on the initial page a blank topic makes the error region visible
  beside the form, so the page is not the one it was.
\<close>

theorem blank_topic_submit_shows_error:
  "regions init_page = (True, False, False, False) \<and>
   map_option regions (step init_page (submit_topic (js_of ''  ''))) = Some (True, False, False, True) \<and>
   step init_page (submit_topic (js_of ''  '')) \<noteq> Some init_page"
  by code_simp

section \<open>Properties of the timer callback\<close>

text \<open>
  C5, as the code has it: for a status "completed" without a report \<^verbatim>\<open>showResults\<close>
  returns at once, so the callback does no more than update the progress and stop polling:
  the four regions stay as they were, no field of the report is written, no error message
  is set and nothing is printed to the console.
\<close>

theorem completed_without_report:
  assumes "status st = STATUS_completed" and "\<not> truthy_obj (report st)"
  shows "showResults st s = s \<and>
         pollingCallback_resume (ok st) s = stopPolling (updateProgressView st s) \<and>
         form_visible (pollingCallback_resume (ok st) s) = form_visible s \<and>
         progress_visible (pollingCallback_resume (ok st) s) = progress_visible s \<and>
         results_visible (pollingCallback_resume (ok st) s) = results_visible s \<and>
         error_visible (pollingCallback_resume (ok st) s) = error_visible s \<and>
         reportTopic_textContent (pollingCallback_resume (ok st) s) = reportTopic_textContent s \<and>
         reportSummary_innerHTML (pollingCallback_resume (ok st) s) = reportSummary_innerHTML s \<and>
         keyFindings_items (pollingCallback_resume (ok st) s) = keyFindings_items s \<and>
         detailedAnalysis_innerHTML (pollingCallback_resume (ok st) s) = detailedAnalysis_innerHTML s \<and>
         researchSteps_appended (pollingCallback_resume (ok st) s) = researchSteps_appended s \<and>
         sources_items (pollingCallback_resume (ok st) s) = sources_items s \<and>
         errorMessage_textContent (pollingCallback_resume (ok st) s) = errorMessage_textContent s \<and>
         console_errors (pollingCallback_resume (ok st) s) = console_errors s \<and>
         currentStep_textContent (pollingCallback_resume (ok st) s) = current_step st"
proof -
  have nop: "showResults st s' = s'" for s'
    using assms(2) by (rule showResults_missing)
  have eq: "pollingCallback_resume (ok st) s = stopPolling (updateProgressView st s)"
    using assms(1) by (simp add: pollingCallback_resume_def nop)
  show ?thesis
    unfolding eq
    by (simp add: nop form_visible_def progress_visible_def results_visible_def error_visible_def)
qed

theorem completed_without_report_witness:
  "status (completed Undefined) = STATUS_completed \<and>
   \<not> truthy_obj (report (completed Undefined)) \<and>
   showResults (completed Undefined) init_page = init_page \<and>
   form_visible (pollingCallback_resume (ok (completed Undefined)) init_page) = form_visible init_page \<and>
   console_errors (pollingCallback_resume (ok (completed Undefined)) init_page) = console_errors init_page"
proof -
  have h: "status (completed Undefined) = STATUS_completed" "\<not> truthy_obj (report (completed Undefined))"
    by (simp_all add: completed_def STATUS_completed_def)
  from completed_without_report [OF h, of init_page] h show ?thesis by blast
qed

text \<open>
  C5 as stated fails: after a tick with status "completed" and no report the page shows the
  progress region, not the form, and the console has no entry.
\<close>

theorem completed_without_report_stays_on_progress:
  "map_option regions
     (run init_page [submit_topic (js_of ''AI''), StartSettles 0 (started ''r1''), TimerFires 1,
        StatusSettles 0 (ok (completed Undefined))]) = Some (False, True, False, False) \<and>
   map_option console_errors
     (run init_page [submit_topic (js_of ''AI''), StartSettles 0 (started ''r1''), TimerFires 1,
        StatusSettles 0 (ok (completed Undefined))]) = Some []"
  by code_simp







section \<open>The polling schedule\<close>

lemma single_timer_init: "single_timer init_page"
  by (simp add: single_timer_def init_page_def)

lemma stopPolling_single: "single_timer s \<Longrightarrow> single_timer (stopPolling s)"
  by (auto simp add: single_timer_def stopPolling_def split: option.splits)

lemma stopPolling_single_None: "single_timer s \<Longrightarrow> pollingTimer (stopPolling s) = None"
  by (auto simp add: single_timer_def stopPolling_def split: option.splits)

lemma resetResearch_single: "single_timer s \<Longrightarrow> start_requests s = [] \<Longrightarrow> single_timer (resetResearch s)"
  using stopPolling_single [of s] stopPolling_single_None [of s]
  by (simp add: single_timer_def resetResearch_def)

lemma showError_single: "single_timer s \<Longrightarrow> single_timer (showError m s)"
  by (auto simp add: single_timer_def split: option.splits)

lemma showResults_single: "single_timer s \<Longrightarrow> single_timer (showResults st s)"
  by (auto simp add: single_timer_def split: option.splits)

lemma updateProgressView_single: "single_timer s \<Longrightarrow> single_timer (updateProgressView st s)"
  by (auto simp add: single_timer_def split: option.splits)

lemma console_single: "single_timer (s\<lparr>console_errors := x\<rparr>) = single_timer s"
  by (simp add: single_timer_def)

lemma status_requests_single: "single_timer (s\<lparr>status_requests := x\<rparr>) = single_timer s"
  by (simp add: single_timer_def)

lemma pollingCallback_resume_single:
  "single_timer s \<Longrightarrow> single_timer (pollingCallback_resume outcome s)"
  by (simp add: pollingCallback_resume_def Let_def showError_single showResults_single
        stopPolling_single updateProgressView_single console_single
        split: sum.splits)

lemma handleSubmitResearch_single:
  assumes "single_timer s" and "start_requests s = []" and "\<not> formCard_d_none s"
  shows "single_timer (handleSubmitResearch tv dv mv s)"
proof -
  from assms(1,3) have "pollingTimer s = None"
    by (auto simp add: single_timer_def split: option.splits)
  with assms(1,2) show ?thesis
    by (simp add: handleSubmitResearch_def Let_def showError_single)
       (simp add: single_timer_def)
qed

lemma handleSubmitResearch_resume_single:
  assumes "single_timer s" and "start_requests s = [req]"
  shows "single_timer (handleSubmitResearch_resume req outcome (s\<lparr>start_requests := others 0 (start_requests s)\<rparr>))"
proof -
  from assms have n: "pollingTimer s = None" "intervals s = []" "next_timer_id s \<noteq> 0"
    by (auto simp add: single_timer_def split: option.splits)
  show ?thesis
    using n assms(2)
    by (simp add: handleSubmitResearch_resume_def single_timer_def startPolling_def
          showProgressView_def updateProgress_def showError_def others_def
          split: sum.splits)
qed

lemma step_single:
  assumes "single_timer s" and "start_requests s = [] \<or> is_start_settlement e" and "step s e = Some s'"
  shows "single_timer s'"
proof (cases e)
  case (Submit tv dv mv)
  with assms show ?thesis
    by (auto simp add: handleSubmitResearch_single split: if_splits)
next
  case ClickNewResearchBtn
  with assms show ?thesis by (auto simp add: resetResearch_single split: if_splits)
next
  case ClickNewResearchBtnEnd
  with assms show ?thesis by (auto simp add: resetResearch_single split: if_splits)
next
  case ClickNewResearchBtnError
  with assms show ?thesis by (auto simp add: resetResearch_single split: if_splits)
next
  case (TimerFires t)
  with assms show ?thesis
    by (auto simp add: pollingCallback_def status_requests_single split: if_splits)
next
  case (StartSettles i outcome)
  with assms(3) have i: "i < length (start_requests s)"
    and s': "s' = handleSubmitResearch_resume (start_requests s ! i) outcome
                    (s\<lparr>start_requests := others i (start_requests s)\<rparr>)"
    by (auto split: if_splits)
  from assms(1) have "length (start_requests s) \<le> 1" by (simp add: single_timer_def)
  with i obtain req where "start_requests s = [req]" "i = 0"
    by (cases "start_requests s") auto
  with s' handleSubmitResearch_resume_single [OF assms(1), of req outcome] show ?thesis by simp
next
  case (StatusSettles i outcome)
  with assms show ?thesis
    by (auto simp add: pollingCallback_resume_single status_requests_single split: if_splits)
qed

lemma run_single:
  assumes "single_timer s" and "prompt s es" and "run s es = Some s'"
  shows "single_timer s'"
  using assms
proof (induction es arbitrary: s)
  case Nil
  then show ?case by simp
next
  case (Cons e es)
  from Cons.prems(3) obtain s1 where s1: "step s e = Some s1" "run s1 es = Some s'"
    by (auto split: option.splits)
  from Cons.prems(2) s1(1) have p: "start_requests s = [] \<or> is_start_settlement e" "prompt s1 es"
    by auto
  from step_single [OF Cons.prems(1) p(1) s1(1)] have "single_timer s1" .
  from Cons.IH [OF this p(2) s1(2)] show ?case .
qed

text \<open>
  Where every start request settles before the next event, at most one timer is live at any
  time, and it is the timer that \<open>pollingTimer\<close> holds: \<^verbatim>\<open>resetResearch\<close> and the
  terminal branches of the callback clear it, and the form, hidden while it is live, admits
  no second submission.
\<close>

lemma at_most_one_timer_when_starts_settle_first:
  assumes "prompt init_page es" and "run init_page es = Some s"
  shows "length (intervals s) \<le> 1 \<and> set (intervals s) = set_option (pollingTimer s)"
  using run_single [OF single_timer_init assms]
  by (auto simp add: single_timer_def split: option.splits)

text \<open>
  C4 fails on the code. After \<open>leak_trace\<close> the timers 1 and 2 are both live while
  \<open>pollingTimer\<close> holds 2 only: \<^verbatim>\<open>startPolling\<close> has overwritten the handle of timer 1
  without clearing it. Each of them sends a status request for the second job when it
  fires. When the job fails and the user resets, \<^verbatim>\<open>stopPolling\<close> clears timer 2; timer 1
  stays live and goes on sending status requests, now for the research id \<^verbatim>\<open>null\<close>.
\<close>

theorem two_schedules_after_reset_during_start:
  "map_option controller (run init_page leak_trace) =
     Some (Present (js_of ''r2''), Some 2, [1, 2], []) \<and>
   map_option controller (run init_page (leak_trace @ [TimerFires 1, TimerFires 2])) =
     Some (Present (js_of ''r2''), Some 2, [1, 2], [Present (js_of ''r2''), Present (js_of ''r2'')]) \<and>
   map_option controller
     (run init_page (leak_trace @ [TimerFires 2, StatusSettles 0 (ok (failed Undefined)),
        ClickNewResearchBtnError, TimerFires 1])) =
     Some (Null, None, [1], [Null])"
  by code_simp

end
